theory Spec2Isabelle
  imports Complex_Main "HOL-Library.Sublist"
begin

section \<open>Strings\<close>

text \<open>
  Strings are lists of characters. \<open>toLowerCase\<close> maps the letters \<open>A\<close> to \<open>Z\<close> to
  \<open>a\<close> to \<open>z\<close> and leaves every other character alone: the model covers ASCII text.
\<close>

definition toLowerCaseChar :: "char \<Rightarrow> char" where
  "toLowerCaseChar c =
     (let n = (of_char c :: nat) in if 65 \<le> n \<and> n \<le> 90 then char_of (n + 32) else c)"

definition toLowerCase :: "string \<Rightarrow> string" where
  "toLowerCase s = map toLowerCaseChar s"

text \<open>\<open>includesStr s t\<close> is \<^verbatim>\<open>s.includes(t)\<close>: \<open>t\<close> occurs in \<open>s\<close> at some position.\<close>

fun includesStr :: "string \<Rightarrow> string \<Rightarrow> bool" where
  "includesStr [] t = (t = [])"
| "includesStr (c # s) t = (prefix t (c # s) \<or> includesStr s t)"

section \<open>Data model\<close>

text \<open>The \<^verbatim>\<open>Loan["status"]\<close> union of the admin loans page.\<close>

datatype loan_status =
  Pending | Verified | Approved | Disbursed | Repaying | Completed | Defaulted | Rejected

fun status_string :: "loan_status \<Rightarrow> string" where
  "status_string Pending = ''pending''"
| "status_string Verified = ''verified''"
| "status_string Approved = ''approved''"
| "status_string Disbursed = ''disbursed''"
| "status_string Repaying = ''repaying''"
| "status_string Completed = ''completed''"
| "status_string Defaulted = ''defaulted''"
| "status_string Rejected = ''rejected''"

text \<open>
  \<^verbatim>\<open>interface Loan\<close> of the admin loans page. The field \<^verbatim>\<open>_id\<close> is \<open>loan_id\<close>; the
  nested \<^verbatim>\<open>user\<close> object has its own record. JavaScript numbers are taken as reals.
\<close>

record loan_user =
  user_id :: string
  user_name :: string
  user_email :: string

record loan =
  loan_id :: string
  user :: loan_user
  amount :: real
  interestRate :: real
  tenure :: real
  applicationDate :: string
  disbursementDate :: "string option"
  status :: loan_status
  reason :: string
  amountPaid :: real
  totalAmountPayable :: real

text \<open>The roles named by the \<^verbatim>\<open>allowedRoles\<close> of the pages and by the registration call.\<close>

datatype role = Admin | Verifier | User

text \<open>
  The outcome of an \<^verbatim>\<open>await api.patch(...)\<close>: the promise resolves, or it rejects with
  an error whose \<^verbatim>\<open>response?.data?.message\<close> may be missing.
\<close>

datatype api_result = Resolved | Failed "string option"

text \<open>
  The toast a handler shows: \<open>StatusUpdated s\<close> has the title \<^verbatim>\<open>Status Updated\<close> and
  names the new status; \<open>FailedToUpdateStatus d\<close> is the destructive toast with the
  description \<open>d\<close>.
\<close>

datatype 's toast = StatusUpdated 's | FailedToUpdateStatus string

text \<open>\<^verbatim>\<open>message || fallback\<close>: an absent or empty message gives the fallback.\<close>

definition message_or :: "string option \<Rightarrow> string \<Rightarrow> string" where
  "message_or m fallback = (case m of None \<Rightarrow> fallback | Some s \<Rightarrow> if s = [] then fallback else s)"

section \<open>Shared helpers of the pages\<close>

text \<open>
  \<^verbatim>\<open>Array.prototype.slice(start, end)\<close>: a negative index counts from the end, and both
  indices are clamped to the bounds of the array.
\<close>

definition Array_slice :: "'a list \<Rightarrow> int \<Rightarrow> int \<Rightarrow> 'a list" where
  "Array_slice xs start fin =
     (let len = int (length xs);
          k = (if start < 0 then max (len + start) 0 else min start len);
          final = (if fin < 0 then max (len + fin) 0 else min fin len)
      in take (nat (final - k)) (drop (nat k) xs))"

text \<open>
  The pagination at the head of every table component (\<^verbatim>\<open>LoanTable\<close>,
  \<^verbatim>\<open>BorrowerTable\<close>), the same text in each: \<^verbatim>\<open>itemsPerPage\<close> is the constant state 5,
  \<open>currentItems\<close> is \<^verbatim>\<open>currentLoans\<close> or \<^verbatim>\<open>currentBorrowers\<close>.
\<close>

definition itemsPerPage :: int where
  "itemsPerPage = 5"

definition currentItems :: "'a list \<Rightarrow> int \<Rightarrow> 'a list" where
  "currentItems items currentPage =
     (let indexOfLastItem = currentPage * itemsPerPage;
          indexOfFirstItem = indexOfLastItem - itemsPerPage
      in Array_slice items indexOfFirstItem indexOfLastItem)"

definition totalPages :: "'a list \<Rightarrow> int" where
  "totalPages items = \<lceil>real (length items) / real_of_int itemsPerPage\<rceil>"

text \<open>
  The result of a JavaScript division: a division by zero gives \<^verbatim>\<open>NaN\<close> or an infinity,
  here \<open>NotFinite\<close>; it raises nothing.
\<close>

datatype js_number = Finite real | NotFinite

definition js_divide :: "real \<Rightarrow> real \<Rightarrow> js_number" where
  "js_divide a b = (if b = 0 then NotFinite else Finite (a / b))"

fun js_times :: "js_number \<Rightarrow> real \<Rightarrow> js_number" where
  "js_times (Finite x) y = Finite (x * y)"
| "js_times NotFinite y = NotFinite"

text \<open>
  What a card prints before the percent sign: the number \<^verbatim>\<open>0\<close> of the guard's else
  branch, or the text \<^verbatim>\<open>x.toFixed(1)\<close> of a computed value.
\<close>

datatype percent_text = PlainZero | ToFixed1 js_number

text \<open>The expression \<^verbatim>\<open>((part / whole) * 100).toFixed(1)\<close> of the cards.\<close>

definition percentage :: "real \<Rightarrow> real \<Rightarrow> percent_text" where
  "percentage part whole = ToFixed1 (js_times (js_divide part whole) 100)"

section \<open>Admin loans page\<close>

text \<open>
  \<^verbatim>\<open>filteredLoans\<close>: the optional chaining is the identity on values of the declared
  interface, where the three fields are present.
\<close>

definition AdminLoans_filteredLoans :: "loan list \<Rightarrow> string \<Rightarrow> loan list" where
  "AdminLoans_filteredLoans loans searchTerm =
     filter (\<lambda>loan.
        includesStr (toLowerCase (user_name (user loan))) (toLowerCase searchTerm) \<or>
        includesStr (toLowerCase (reason loan)) (toLowerCase searchTerm) \<or>
        includesStr (toLowerCase (status_string (status loan))) (toLowerCase searchTerm)) loans"

text \<open>
  \<^verbatim>\<open>handleUpdateStatus\<close> of the admin loans page. The list of loans is the component
  state; the result is the new state and the toast. When the request fails the state is
  not touched.
\<close>

definition AdminLoans_handleUpdateStatus ::
  "loan list \<Rightarrow> string \<Rightarrow> loan_status \<Rightarrow> api_result \<Rightarrow> loan list \<times> loan_status toast" where
  "AdminLoans_handleUpdateStatus loans loanId newStatus res =
     (case res of
        Resolved \<Rightarrow>
          (map (\<lambda>loan. if loan_id loan = loanId then loan\<lparr>status := newStatus\<rparr> else loan) loans,
           StatusUpdated newStatus)
      | Failed msg \<Rightarrow>
          (loans,
           FailedToUpdateStatus (message_or msg ''There was an error updating the loan status.'')))"

text \<open>The statistics of the cards; \<^verbatim>\<open>reduce\<close> folds from the left, starting at 0.\<close>

definition totalLoans :: "loan list \<Rightarrow> nat" where
  "totalLoans loans = length loans"

definition totalAmount :: "loan list \<Rightarrow> real" where
  "totalAmount loans = foldl (\<lambda>sum loan. sum + amount loan) 0 loans"

definition totalDisbursed :: "loan list \<Rightarrow> real" where
  "totalDisbursed loans =
     foldl (\<lambda>sum loan. sum + amount loan) 0
       (filter (\<lambda>loan. status loan \<in> set [Disbursed, Repaying, Completed, Defaulted]) loans)"

definition totalRepaid :: "loan list \<Rightarrow> real" where
  "totalRepaid loans = foldl (\<lambda>sum loan. sum + amountPaid loan) 0 loans"

definition disbursedPercent :: "loan list \<Rightarrow> percent_text" where
  "disbursedPercent loans =
     (if totalAmount loans > 0 then percentage (totalDisbursed loans) (totalAmount loans)
      else PlainZero)"

definition repaidPercent :: "loan list \<Rightarrow> percent_text" where
  "repaidPercent loans =
     (if totalDisbursed loans > 0 then percentage (totalRepaid loans) (totalDisbursed loans)
      else PlainZero)"

text \<open>The share paid of one loan, in the \<^verbatim>\<open>Paid\<close> column of the table.\<close>

definition paidPercent :: "loan \<Rightarrow> percent_text" where
  "paidPercent loan =
     (if totalAmountPayable loan > 0 then percentage (amountPaid loan) (totalAmountPayable loan)
      else PlainZero)"

text \<open>
  The status buttons of the admin \<^verbatim>\<open>LoanTable\<close>, in the order of the markup: each
  guard of the form \<^verbatim>\<open>loan.status === X && <Button onClick={() => onUpdateStatus(loan._id, Y)}>\<close>
  contributes the target \<open>Y\<close>.
\<close>

definition LoanTable_actions :: "loan_status \<Rightarrow> loan_status list" where
  "LoanTable_actions st =
     (if st = Pending then [Verified] else []) @
     (if st = Verified then [Approved] else []) @
     (if st = Approved then [Disbursed] else []) @
     (if st = Disbursed then [Repaying] else []) @
     (if st = Repaying then [Completed] else []) @
     (if st \<in> set [Pending, Verified, Approved] then [Rejected] else []) @
     (if st \<in> set [Disbursed, Repaying] then [Defaulted] else [])"

text \<open>
  A click in the row of \<open>loan\<close>. The row holds the button for a target exactly when the
  guard of that button holds for the status of the loan, and the button calls
  \<^verbatim>\<open>onUpdateStatus(loan._id, target)\<close>, which the page binds to its
  \<^verbatim>\<open>handleUpdateStatus\<close>. \<open>None\<close>: the row has no such button, nothing is called and the
  state of the page stays as it is.
\<close>

definition LoanTable_click ::
  "loan list \<Rightarrow> loan \<Rightarrow> loan_status \<Rightarrow> api_result \<Rightarrow> (loan list \<times> loan_status toast) option" where
  "LoanTable_click loans loan target res =
     (if target \<in> set (LoanTable_actions (status loan))
      then Some (AdminLoans_handleUpdateStatus loans (loan_id loan) target res) else None)"

section \<open>Admin borrowers page\<close>

datatype borrower_status = Active | Inactive | Blacklisted

text \<open>\<^verbatim>\<open>interface Borrower\<close> of the admin borrowers page; \<^verbatim>\<open>_id\<close> is \<open>borrower_id\<close>,
  \<^verbatim>\<open>status\<close> is \<open>bstatus\<close> and \<^verbatim>\<open>loans\<close> is \<open>loanCount\<close>.\<close>

record borrower =
  borrower_id :: string
  name :: string
  email :: string
  phone :: string
  bstatus :: borrower_status
  loanCount :: real
  totalBorrowed :: real
  lastActivity :: string

definition AdminBorrowers_filteredBorrowers :: "borrower list \<Rightarrow> string \<Rightarrow> borrower list" where
  "AdminBorrowers_filteredBorrowers borrowers searchTerm =
     filter (\<lambda>borrower.
        includesStr (toLowerCase (name borrower)) (toLowerCase searchTerm) \<or>
        includesStr (toLowerCase (email borrower)) (toLowerCase searchTerm) \<or>
        includesStr (phone borrower) searchTerm) borrowers"

definition AdminBorrowers_handleUpdateStatus ::
  "borrower list \<Rightarrow> string \<Rightarrow> borrower_status \<Rightarrow> api_result
     \<Rightarrow> borrower list \<times> borrower_status toast" where
  "AdminBorrowers_handleUpdateStatus borrowers borrowerId newStatus res =
     (case res of
        Resolved \<Rightarrow>
          (map (\<lambda>borrower. if borrower_id borrower = borrowerId
                            then borrower\<lparr>bstatus := newStatus\<rparr> else borrower) borrowers,
           StatusUpdated newStatus)
      | Failed msg \<Rightarrow>
          (borrowers,
           FailedToUpdateStatus
             (message_or msg ''There was an error updating the borrower status.'')))"

definition activeCount :: "borrower list \<Rightarrow> nat" where
  "activeCount borrowers = length (filter (\<lambda>b. bstatus b = Active) borrowers)"

definition inactiveCount :: "borrower list \<Rightarrow> nat" where
  "inactiveCount borrowers = length (filter (\<lambda>b. bstatus b = Inactive) borrowers)"

definition blacklistedCount :: "borrower list \<Rightarrow> nat" where
  "blacklistedCount borrowers = length (filter (\<lambda>b. bstatus b = Blacklisted) borrowers)"

definition activePercent :: "borrower list \<Rightarrow> percent_text" where
  "activePercent borrowers =
     (if length borrowers > 0
      then percentage (real (activeCount borrowers)) (real (length borrowers)) else PlainZero)"

definition inactivePercent :: "borrower list \<Rightarrow> percent_text" where
  "inactivePercent borrowers =
     (if length borrowers > 0
      then percentage (real (inactiveCount borrowers)) (real (length borrowers)) else PlainZero)"

definition blacklistedPercent :: "borrower list \<Rightarrow> percent_text" where
  "blacklistedPercent borrowers =
     (if length borrowers > 0
      then percentage (real (blacklistedCount borrowers)) (real (length borrowers))
      else PlainZero)"

section \<open>Verifier borrowers page\<close>

datatype verification_status = VPending | VVerified | VRejected

text \<open>\<^verbatim>\<open>interface Borrower\<close> of the verifier borrowers page.\<close>

record verifier_borrower =
  vb_id :: string
  vb_name :: string
  vb_email :: string
  vb_phone :: string
  vb_status :: verification_status
  dateApplied :: string
  documents :: "string list"

definition VerifierBorrowers_filteredBorrowers ::
  "verifier_borrower list \<Rightarrow> string \<Rightarrow> verifier_borrower list" where
  "VerifierBorrowers_filteredBorrowers borrowers searchTerm =
     filter (\<lambda>borrower.
        includesStr (toLowerCase (vb_name borrower)) (toLowerCase searchTerm) \<or>
        includesStr (toLowerCase (vb_email borrower)) (toLowerCase searchTerm) \<or>
        includesStr (vb_phone borrower) searchTerm) borrowers"

definition VerifierBorrowers_handleUpdateStatus ::
  "verifier_borrower list \<Rightarrow> string \<Rightarrow> verification_status \<Rightarrow> api_result
     \<Rightarrow> verifier_borrower list \<times> verification_status toast" where
  "VerifierBorrowers_handleUpdateStatus borrowers borrowerId newStatus res =
     (case res of
        Resolved \<Rightarrow>
          (map (\<lambda>borrower. if vb_id borrower = borrowerId
                            then borrower\<lparr>vb_status := newStatus\<rparr> else borrower) borrowers,
           StatusUpdated newStatus)
      | Failed msg \<Rightarrow>
          (borrowers,
           FailedToUpdateStatus
             (message_or msg ''There was an error updating the borrower status.'')))"

section \<open>Verifier loans page\<close>

text \<open>
  The status buttons of the verifier \<^verbatim>\<open>LoanTable\<close>: both sit under the one guard
  \<^verbatim>\<open>loan.status === "pending"\<close>. The page declares only three of the status values;
  the comparison is the same on all of them.
\<close>

definition VerifierLoanTable_actions :: "loan_status \<Rightarrow> loan_status list" where
  "VerifierLoanTable_actions st = (if st = Pending then [Verified, Rejected] else [])"

text \<open>
  \<^verbatim>\<open>interface Loan\<close> of the verifier loans page and the statistics of its cards. The
  interface declares the three statuses pending, verified and rejected.
\<close>

record verifier_loan =
  vl_id :: string
  vl_user :: loan_user
  vl_amount :: real
  vl_interestRate :: real
  vl_tenure :: real
  vl_reason :: string
  vl_applicationDate :: string
  vl_status :: loan_status
  vl_documents :: "string list option"
  vl_employmentStatus :: "string option"
  vl_employerName :: "string option"
  vl_employerAddress :: "string option"

definition pendingCount :: "verifier_loan list \<Rightarrow> nat" where
  "pendingCount loans = length (filter (\<lambda>l. vl_status l = Pending) loans)"

definition verifiedCount :: "verifier_loan list \<Rightarrow> nat" where
  "verifiedCount loans = length (filter (\<lambda>l. vl_status l = Verified) loans)"

definition rejectedCount :: "verifier_loan list \<Rightarrow> nat" where
  "rejectedCount loans = length (filter (\<lambda>l. vl_status l = Rejected) loans)"

definition pendingPercent :: "verifier_loan list \<Rightarrow> percent_text" where
  "pendingPercent loans =
     (if length loans > 0
      then percentage (real (pendingCount loans)) (real (length loans)) else PlainZero)"

definition verifiedPercent :: "verifier_loan list \<Rightarrow> percent_text" where
  "verifiedPercent loans =
     (if length loans > 0
      then percentage (real (verifiedCount loans)) (real (length loans)) else PlainZero)"

definition rejectedPercent :: "verifier_loan list \<Rightarrow> percent_text" where
  "rejectedPercent loans =
     (if length loans > 0
      then percentage (real (rejectedCount loans)) (real (length loans)) else PlainZero)"

text \<open>
  \<^verbatim>\<open>handleUpdateStatus\<close> of the verifier loans page, and a click in a row of its table,
  as for the admin table.
\<close>

definition VerifierLoans_handleUpdateStatus ::
  "verifier_loan list \<Rightarrow> string \<Rightarrow> loan_status \<Rightarrow> api_result
     \<Rightarrow> verifier_loan list \<times> loan_status toast" where
  "VerifierLoans_handleUpdateStatus loans loanId newStatus res =
     (case res of
        Resolved \<Rightarrow>
          (map (\<lambda>loan. if vl_id loan = loanId then loan\<lparr>vl_status := newStatus\<rparr> else loan) loans,
           StatusUpdated newStatus)
      | Failed msg \<Rightarrow>
          (loans,
           FailedToUpdateStatus (message_or msg ''There was an error updating the loan status.'')))"

definition VerifierLoanTable_click ::
  "verifier_loan list \<Rightarrow> verifier_loan \<Rightarrow> loan_status \<Rightarrow> api_result
     \<Rightarrow> (verifier_loan list \<times> loan_status toast) option" where
  "VerifierLoanTable_click loans loan target res =
     (if target \<in> set (VerifierLoanTable_actions (vl_status loan))
      then Some (VerifierLoans_handleUpdateStatus loans (vl_id loan) target res) else None)"

section \<open>Verifier dashboard\<close>

text \<open>
  The loans of the dashboard, as \<^verbatim>\<open>formattedLoans\<close> builds them. Their type comes from
  the loan table component of the dashboard; the type of its \<^verbatim>\<open>status\<close> is the
  parameter \<open>'s\<close>. The page fills the field from the \<^verbatim>\<open>status: string\<close> of
  \<^verbatim>\<open>ApiLoan\<close>.
\<close>

record dashboard_user =
  du_id :: string
  du_name :: string

record 's dashboard_loan =
  dl_id :: string
  dl_user :: dashboard_user
  dl_amount :: real
  dl_date :: string
  dl_status :: 's
  dl_reason :: string

definition VerifierDashboard_handleStatusChange ::
  "'s dashboard_loan list \<Rightarrow> string \<Rightarrow> 's \<Rightarrow> api_result \<Rightarrow> 's dashboard_loan list \<times> 's toast" where
  "VerifierDashboard_handleStatusChange loans loanId newStatus res =
     (case res of
        Resolved \<Rightarrow>
          (map (\<lambda>loan. if dl_id loan = loanId then loan\<lparr>dl_status := newStatus\<rparr> else loan) loans,
           StatusUpdated newStatus)
      | Failed msg \<Rightarrow>
          (loans,
           FailedToUpdateStatus (message_or msg ''There was an error updating the loan status.'')))"

text \<open>
  Modelled from the spec: the loan table component of the dashboard
  (\<^verbatim>\<open>@/components/dashboard/loan-table\<close>), to which the page passes
  \<^verbatim>\<open>onStatusChange={handleStatusChange}\<close>, is not among the sources. Its buttons are the
  verifier row of the transition table of the specification: from pending, verified and
  rejected; from every other status, none. A click in a row is as for the other tables.
\<close>

definition DashboardLoanTable_actions :: "loan_status \<Rightarrow> loan_status list" where
  "DashboardLoanTable_actions st = (if st = Pending then [Verified, Rejected] else [])"

definition DashboardLoanTable_click ::
  "loan_status dashboard_loan list \<Rightarrow> loan_status dashboard_loan \<Rightarrow> loan_status \<Rightarrow> api_result
     \<Rightarrow> (loan_status dashboard_loan list \<times> loan_status toast) option" where
  "DashboardLoanTable_click loans loan target res =
     (if target \<in> set (DashboardLoanTable_actions (dl_status loan))
      then Some (VerifierDashboard_handleStatusChange loans (dl_id loan) target res) else None)"

section \<open>Roles and pages\<close>

text \<open>
  Each page is wrapped in \<^verbatim>\<open><ProtectedRoute allowedRoles={[...]}>\<close>, with these lists
  of roles.
\<close>

definition AdminLoans_allowedRoles :: "role list" where
  "AdminLoans_allowedRoles = [Admin]"

definition VerifierLoans_allowedRoles :: "role list" where
  "VerifierLoans_allowedRoles = [Verifier]"

definition VerifierDashboard_allowedRoles :: "role list" where
  "VerifierDashboard_allowedRoles = [Verifier]"

text \<open>
  Modelled from the spec: the component \<^verbatim>\<open>ProtectedRoute\<close> is not among the sources. By
  the specification the acting role decides which transitions are permitted, and the user
  role has none: a page, with its table and its handler, is open to a role exactly when
  the role is in the \<^verbatim>\<open>allowedRoles\<close> of the page.
\<close>

definition ProtectedRoute :: "role list \<Rightarrow> role \<Rightarrow> bool" where
  "ProtectedRoute allowedRoles r = (r \<in> set allowedRoles)"

text \<open>The targets that the tables of the pages open to a role offer for a status.\<close>

definition offeredTransitions :: "role \<Rightarrow> loan_status \<Rightarrow> loan_status list" where
  "offeredTransitions r st =
     (if ProtectedRoute AdminLoans_allowedRoles r then LoanTable_actions st else []) @
     (if ProtectedRoute VerifierLoans_allowedRoles r then VerifierLoanTable_actions st else []) @
     (if ProtectedRoute VerifierDashboard_allowedRoles r then DashboardLoanTable_actions st
      else [])"

text \<open>A click by a role on a page: the table is there for the role only on an open page.\<close>

definition AdminLoans_click ::
  "role \<Rightarrow> loan list \<Rightarrow> loan \<Rightarrow> loan_status \<Rightarrow> api_result
     \<Rightarrow> (loan list \<times> loan_status toast) option" where
  "AdminLoans_click r loans loan target res =
     (if ProtectedRoute AdminLoans_allowedRoles r then LoanTable_click loans loan target res
      else None)"

definition VerifierLoans_click ::
  "role \<Rightarrow> verifier_loan list \<Rightarrow> verifier_loan \<Rightarrow> loan_status \<Rightarrow> api_result
     \<Rightarrow> (verifier_loan list \<times> loan_status toast) option" where
  "VerifierLoans_click r loans loan target res =
     (if ProtectedRoute VerifierLoans_allowedRoles r
      then VerifierLoanTable_click loans loan target res else None)"

definition VerifierDashboard_click ::
  "role \<Rightarrow> loan_status dashboard_loan list \<Rightarrow> loan_status dashboard_loan \<Rightarrow> loan_status
     \<Rightarrow> api_result \<Rightarrow> (loan_status dashboard_loan list \<times> loan_status toast) option" where
  "VerifierDashboard_click r loans loan target res =
     (if ProtectedRoute VerifierDashboard_allowedRoles r
      then DashboardLoanTable_click loans loan target res else None)"

section \<open>The transition engine of the specification\<close>




section \<open>Sample records\<close>

text \<open>A loan awaiting disbursal, with no disbursement date.\<close>

definition approvedLoan :: loan where
  "approvedLoan =
     \<lparr> loan_id = ''64f0c1'',
       user = \<lparr> user_id = ''u1'', user_name = ''Asha Rao'', user_email = ''asha@example.com'' \<rparr>,
       amount = 100000, interestRate = 15, tenure = 12,
       applicationDate = ''2024-01-05T00:00:00.000Z'', disbursementDate = None,
       status = Approved, reason = ''Shop stock'', amountPaid = 0,
       totalAmountPayable = 115000 \<rparr>"

text \<open>A pending loan of the verifier loans page, and one of the verifier dashboard.\<close>

definition pendingVerifierLoan :: verifier_loan where
  "pendingVerifierLoan =
     \<lparr> vl_id = ''64f0c3'',
       vl_user = \<lparr> user_id = ''u2'', user_name = ''Ravi Iyer'', user_email = ''ravi@example.com'' \<rparr>,
       vl_amount = 50000, vl_interestRate = 15, vl_tenure = 6, vl_reason = ''School fees'',
       vl_applicationDate = ''2024-01-05T00:00:00.000Z'', vl_status = Pending,
       vl_documents = None, vl_employmentStatus = Some ''Employed'',
       vl_employerName = None, vl_employerAddress = None \<rparr>"

definition pendingDashboardLoan :: "loan_status dashboard_loan" where
  "pendingDashboardLoan =
     \<lparr> dl_id = ''64f0c2'', dl_user = \<lparr> du_id = ''u2'', du_name = ''Ravi Iyer'' \<rparr>,
       dl_amount = 50000, dl_date = ''January 05, 2024'', dl_status = Pending,
       dl_reason = ''Loan Application'' \<rparr>"

text \<open>
  A borrower as \<^verbatim>\<open>handleAddBorrower\<close> adds one registered without a phone number:
  \<^verbatim>\<open>phone: newUser.phone || 'Not provided'\<close>.
\<close>

definition borrowerWithoutPhone :: borrower where
  "borrowerWithoutPhone =
     \<lparr> borrower_id = ''u3'', name = ''Meera Das'', email = ''meera@example.com'',
       phone = ''Not provided'', bstatus = Active, loanCount = 0, totalBorrowed = 0,
       lastActivity = ''2024-01-05T00:00:00.000Z'' \<rparr>"

text \<open>A verifier-side borrower awaiting verification.\<close>

definition pendingBorrower :: verifier_borrower where
  "pendingBorrower =
     \<lparr> vb_id = ''u4'', vb_name = ''Kiran Shah'', vb_email = ''kiran@example.com'',
       vb_phone = ''9876543210'', vb_status = VPending,
       dateApplied = ''2024-02-01T00:00:00.000Z'', documents = [''ID'', ''Payslip''] \<rparr>"

section \<open>Auxiliary facts\<close>

lemma includesStr_sublist: "includesStr s t \<longleftrightarrow> sublist t s"
  by (induction s) (simp_all add: sublist_Cons_right)

lemma includesStr_Nil: "includesStr s []"
  by (simp add: includesStr_sublist)

lemma toLowerCase_Nil: "toLowerCase [] = []"
  by (simp add: toLowerCase_def)

lemma percentage_finite: "whole \<noteq> 0 \<Longrightarrow> percentage part whole \<noteq> ToFixed1 NotFinite"
  by (simp add: percentage_def js_divide_def)

text \<open>A page of the table is the next five items, or what is left of them.\<close>

lemma Array_slice_page:
  "Array_slice items (5 * int k) (5 * int k + 5) = take 5 (drop (5 * k) items)"
proof (cases "5 * k \<le> length items")
  case True
  have k: "min (5 * int k) (int (length items)) = 5 * int k"
    using True by linarith
  have n: "nat (min (5 * int k + 5) (int (length items)) - 5 * int k) = min 5 (length items - 5 * k)"
    using True by linarith
  have m: "nat (5 * int k) = 5 * k"
    by simp
  have "Array_slice items (5 * int k) (5 * int k + 5) =
        take (nat (min (5 * int k + 5) (int (length items)) - 5 * int k))
          (drop (nat (5 * int k)) items)"
    by (simp add: Array_slice_def Let_def k)
  also have "\<dots> = take (min 5 (length items - 5 * k)) (drop (5 * k) items)"
    by (simp only: n m)
  also have "\<dots> = take 5 (drop (5 * k) items)"
    by (cases "5 \<le> length items - 5 * k") (simp_all add: min_def)
  finally show ?thesis .
next
  case False
  then show ?thesis
    by (simp add: Array_slice_def Let_def)
qed

lemma currentItems_take_drop:
  "currentItems items (int k + 1) = take 5 (drop (5 * k) items)"
proof -
  have "(int k + 1) * 5 = 5 * int k + 5" and "(int k + 1) * 5 - 5 = 5 * int k"
    by simp_all
  then show ?thesis
    unfolding currentItems_def itemsPerPage_def Let_def by (simp only: Array_slice_page)
qed

lemma pages_concat_take:
  "concat (map (currentItems items) [1..int k]) = take (5 * k) items"
proof (induction k)
  case 0
  then show ?case by simp
next
  case (Suc k)
  have "[1..int (Suc k)] = [1..int k] @ [int k + 1]"
    by (simp add: upto_rec2)
  then have "concat (map (currentItems items) [1..int (Suc k)]) =
             concat (map (currentItems items) [1..int k]) @ currentItems items (int k + 1)"
    by (simp only: map_append concat_append list.map concat.simps append_Nil2)
  also have "\<dots> = take (5 * k) items @ take 5 (drop (5 * k) items)"
    by (simp only: Suc.IH currentItems_take_drop)
  also have "\<dots> = take (5 * k + 5) items"
    by (simp only: take_add)
  finally show ?case by (simp add: add.commute)
qed

lemma totalPages_nonneg: "0 \<le> totalPages items"
  by (simp add: totalPages_def itemsPerPage_def)

lemma totalPages_covers: "length items \<le> 5 * nat (totalPages items)"
proof -
  have "real (length items) / 5 \<le> of_int (totalPages items)"
    unfolding totalPages_def itemsPerPage_def by simp
  then have "real (length items) \<le> real_of_int (5 * totalPages items)"
    by simp
  then have "int (length items) \<le> 5 * totalPages items"
    by linarith
  then show ?thesis using totalPages_nonneg [of items] by linarith
qed

section \<open>Terminal statuses\<close>

text \<open>
  C1. For a loan in one of the terminal statuses completed, defaulted and rejected, and
  for every acting role: no table offers a target status, the list of offered targets is
  empty; and no transition succeeds, since a handler runs only from a button of a row,
  and the row of such a loan has no button for any target, on the admin loans page, on
  the verifier loans page and on the verifier dashboard.
\<close>

theorem terminal_status_no_transition:
  "st \<in> {Completed, Defaulted, Rejected} \<Longrightarrow>
   offeredTransitions r st = [] \<and>
   (status loan = st \<longrightarrow> AdminLoans_click r loans loan target res = None) \<and>
   (vl_status vloan = st \<longrightarrow> VerifierLoans_click r vloans vloan target res = None) \<and>
   (dl_status dloan = st \<longrightarrow> VerifierDashboard_click r dloans dloan target res = None)"
  by (auto simp: offeredTransitions_def AdminLoans_click_def VerifierLoans_click_def
      VerifierDashboard_click_def LoanTable_click_def VerifierLoanTable_click_def
      DashboardLoanTable_click_def LoanTable_actions_def VerifierLoanTable_actions_def
      DashboardLoanTable_actions_def)

text \<open>
  C1 on rejected loans: the admin asks for pending on the admin page, the verifier
  for verified on the two verifier pages, each time with an API that would accept.
\<close>

theorem terminal_status_no_transition_witness:
  "Rejected \<in> {Completed, Defaulted, Rejected} \<and>
   status (approvedLoan\<lparr>status := Rejected\<rparr>) = Rejected \<and>
   vl_status (pendingVerifierLoan\<lparr>vl_status := Rejected\<rparr>) = Rejected \<and>
   dl_status (pendingDashboardLoan\<lparr>dl_status := Rejected\<rparr>) = Rejected \<and>
   offeredTransitions Admin Rejected = [] \<and>
   AdminLoans_click Admin [approvedLoan\<lparr>status := Rejected\<rparr>]
     (approvedLoan\<lparr>status := Rejected\<rparr>) Pending Resolved = None \<and>
   offeredTransitions Verifier Rejected = [] \<and>
   VerifierLoans_click Verifier [pendingVerifierLoan\<lparr>vl_status := Rejected\<rparr>]
     (pendingVerifierLoan\<lparr>vl_status := Rejected\<rparr>) Verified Resolved = None \<and>
   VerifierDashboard_click Verifier [pendingDashboardLoan\<lparr>dl_status := Rejected\<rparr>]
     (pendingDashboardLoan\<lparr>dl_status := Rejected\<rparr>) Verified Resolved = None"
  using
    terminal_status_no_transition
      [where st = Rejected and r = Admin and target = Pending and res = Resolved
         and loan = "approvedLoan\<lparr>status := Rejected\<rparr>"
         and loans = "[approvedLoan\<lparr>status := Rejected\<rparr>]"
         and vloan = "pendingVerifierLoan\<lparr>vl_status := Rejected\<rparr>"
         and dloan = "pendingDashboardLoan\<lparr>dl_status := Rejected\<rparr>"]
    terminal_status_no_transition
      [where st = Rejected and r = Verifier and target = Verified and res = Resolved
         and loan = "approvedLoan\<lparr>status := Rejected\<rparr>"
         and vloan = "pendingVerifierLoan\<lparr>vl_status := Rejected\<rparr>"
         and vloans = "[pendingVerifierLoan\<lparr>vl_status := Rejected\<rparr>]"
         and dloan = "pendingDashboardLoan\<lparr>dl_status := Rejected\<rparr>"
         and dloans = "[pendingDashboardLoan\<lparr>dl_status := Rejected\<rparr>]"]
  by simp

section \<open>Disbursal\<close>

text \<open>
  C2 as stated: after the admin's successful request from approved to disbursed the loan
  has the status disbursed and, its disbursement date having been unset, a disbursement
  date. On the loan \<open>approvedLoan\<close> the handler sets the status and leaves the date unset.
\<close>

theorem disburse_stamps_date_counterexample:
  "\<not> (map status (fst (AdminLoans_handleUpdateStatus [approvedLoan] ''64f0c1'' Disbursed Resolved))
        = [Disbursed] \<and>
      map disbursementDate
        (fst (AdminLoans_handleUpdateStatus [approvedLoan] ''64f0c1'' Disbursed Resolved))
        \<noteq> [None])"
  by (simp add: AdminLoans_handleUpdateStatus_def approvedLoan_def)

text \<open>
  C2, amended. The admin table offers disbursed from approved; when the request
  resolves, every loan of the list with the requested identifier has the status
  disbursed and the disbursement date it had before, and the list keeps its length.
\<close>

theorem disburse_updates_status_only:
  "Disbursed \<in> set (offeredTransitions Admin Approved) \<and>
   length (fst (AdminLoans_handleUpdateStatus loans loanId Disbursed Resolved)) = length loans \<and>
   (\<forall>i < length loans. loan_id (loans ! i) = loanId \<longrightarrow>
      status (fst (AdminLoans_handleUpdateStatus loans loanId Disbursed Resolved) ! i) = Disbursed \<and>
      disbursementDate (fst (AdminLoans_handleUpdateStatus loans loanId Disbursed Resolved) ! i)
        = disbursementDate (loans ! i))"
  by (simp add: AdminLoans_handleUpdateStatus_def offeredTransitions_def LoanTable_actions_def
      ProtectedRoute_def AdminLoans_allowedRoles_def)

text \<open>C2, amended, on the list that holds \<open>approvedLoan\<close> alone.\<close>

theorem disburse_updates_status_only_witness:
  "(0::nat) < length [approvedLoan] \<and> loan_id ([approvedLoan] ! 0) = ''64f0c1'' \<and>
   status (fst (AdminLoans_handleUpdateStatus [approvedLoan] ''64f0c1'' Disbursed Resolved) ! 0)
     = Disbursed \<and>
   disbursementDate
     (fst (AdminLoans_handleUpdateStatus [approvedLoan] ''64f0c1'' Disbursed Resolved) ! 0) = None"
  using disburse_updates_status_only [of "[approvedLoan]" "''64f0c1''"]
  by (simp add: approvedLoan_def)

section \<open>The verifier and pending loans\<close>



section \<open>The admin and pending loans\<close>

text \<open>
  C4 as stated: the admin is offered the three targets verified, approved and rejected
  from pending. The admin table does not offer approved from pending.
\<close>

theorem admin_pending_targets_counterexample:
  "\<not> set (offeredTransitions Admin Pending) = {Verified, Approved, Rejected}"
  by (auto simp: offeredTransitions_def LoanTable_actions_def ProtectedRoute_def
      AdminLoans_allowedRoles_def VerifierLoans_allowedRoles_def
      VerifierDashboard_allowedRoles_def)

text \<open>
  C4, amended. From pending the admin table offers exactly two targets, verified and
  rejected; approved is not among them, it is offered from verified.
\<close>

theorem admin_pending_targets:
  "offeredTransitions Admin Pending = [Verified, Rejected] \<and>
   Approved \<notin> set (offeredTransitions Admin Pending) \<and>
   offeredTransitions Admin Verified = [Approved, Rejected]"
  by (simp add: offeredTransitions_def LoanTable_actions_def ProtectedRoute_def
      AdminLoans_allowedRoles_def VerifierLoans_allowedRoles_def
      VerifierDashboard_allowedRoles_def)

section \<open>Frame of a status update\<close>

text \<open>
  C5. When the request resolves, the record with the requested identifier has the
  requested status and every other field as before, for the loans of the admin loans
  page and for the borrowers of the admin borrowers page. No field besides the status is
  written, on disbursal or otherwise.
\<close>

theorem status_update_other_fields:
  "(\<forall>i < length loans. loan_id (loans ! i) = loanId \<longrightarrow>
      (let loan' = fst (AdminLoans_handleUpdateStatus loans loanId newStatus Resolved) ! i in
       status loan' = newStatus \<and>
       loan_id loan' = loan_id (loans ! i) \<and> user loan' = user (loans ! i) \<and>
       amount loan' = amount (loans ! i) \<and> interestRate loan' = interestRate (loans ! i) \<and>
       tenure loan' = tenure (loans ! i) \<and> applicationDate loan' = applicationDate (loans ! i) \<and>
       disbursementDate loan' = disbursementDate (loans ! i) \<and> reason loan' = reason (loans ! i) \<and>
       amountPaid loan' = amountPaid (loans ! i) \<and>
       totalAmountPayable loan' = totalAmountPayable (loans ! i))) \<and>
   (\<forall>i < length borrowers. borrower_id (borrowers ! i) = borrowerId \<longrightarrow>
      (let b' = fst (AdminBorrowers_handleUpdateStatus borrowers borrowerId newBStatus Resolved) ! i
       in bstatus b' = newBStatus \<and>
          borrower_id b' = borrower_id (borrowers ! i) \<and> name b' = name (borrowers ! i) \<and>
          email b' = email (borrowers ! i) \<and> phone b' = phone (borrowers ! i) \<and>
          loanCount b' = loanCount (borrowers ! i) \<and>
          totalBorrowed b' = totalBorrowed (borrowers ! i) \<and>
          lastActivity b' = lastActivity (borrowers ! i)))"
  by (simp add: AdminLoans_handleUpdateStatus_def AdminBorrowers_handleUpdateStatus_def)

text \<open>C5 on an approved loan that is rejected and on a borrower that is blacklisted.\<close>

theorem status_update_other_fields_witness:
  "(0::nat) < length [approvedLoan] \<and> loan_id ([approvedLoan] ! 0) = ''64f0c1'' \<and>
   (0::nat) < length [borrowerWithoutPhone] \<and> borrower_id ([borrowerWithoutPhone] ! 0) = ''u3'' \<and>
   status (fst (AdminLoans_handleUpdateStatus [approvedLoan] ''64f0c1'' Rejected Resolved) ! 0)
     = Rejected \<and>
   amount (fst (AdminLoans_handleUpdateStatus [approvedLoan] ''64f0c1'' Rejected Resolved) ! 0)
     = 100000 \<and>
   bstatus
     (fst (AdminBorrowers_handleUpdateStatus [borrowerWithoutPhone] ''u3'' Blacklisted Resolved) ! 0)
     = Blacklisted \<and>
   phone
     (fst (AdminBorrowers_handleUpdateStatus [borrowerWithoutPhone] ''u3'' Blacklisted Resolved) ! 0)
     = ''Not provided''"
  using status_update_other_fields
    [of "[approvedLoan]" "''64f0c1''" Rejected "[borrowerWithoutPhone]" "''u3''" Blacklisted]
  by (simp add: approvedLoan_def borrowerWithoutPhone_def Let_def)

section \<open>Search\<close>

text \<open>
  C6 as stated: a borrower matches exactly when the lowercased term occurs in the
  lowercased name, email or phone. The borrower \<open>borrowerWithoutPhone\<close> has the phone
  text \<^verbatim>\<open>Not provided\<close>; the term \<^verbatim>\<open>not\<close> occurs in its lowercased phone, and the filter
  drops the borrower.
\<close>

theorem phone_match_counterexample:
  "\<not> (AdminBorrowers_filteredBorrowers [borrowerWithoutPhone] ''not'' = [borrowerWithoutPhone] \<longleftrightarrow>
      sublist (toLowerCase ''not'') (toLowerCase (name borrowerWithoutPhone)) \<or>
      sublist (toLowerCase ''not'') (toLowerCase (email borrowerWithoutPhone)) \<or>
      sublist (toLowerCase ''not'') (toLowerCase (phone borrowerWithoutPhone)))"
  by code_simp

text \<open>
  C6, amended. A borrower is kept exactly when the lowercased term occurs in the
  lowercased name or in the lowercased email, or the term as typed occurs in the phone as
  stored: the match on the phone is case-sensitive. This holds on the admin and on the
  verifier borrowers page.
\<close>

theorem borrower_filter_matches:
  "(b \<in> set (AdminBorrowers_filteredBorrowers borrowers t) \<longleftrightarrow>
      b \<in> set borrowers \<and>
      (sublist (toLowerCase t) (toLowerCase (name b)) \<or>
       sublist (toLowerCase t) (toLowerCase (email b)) \<or>
       sublist t (phone b))) \<and>
   (v \<in> set (VerifierBorrowers_filteredBorrowers vborrowers t) \<longleftrightarrow>
      v \<in> set vborrowers \<and>
      (sublist (toLowerCase t) (toLowerCase (vb_name v)) \<or>
       sublist (toLowerCase t) (toLowerCase (vb_email v)) \<or>
       sublist t (vb_phone v)))"
  by (simp add: AdminBorrowers_filteredBorrowers_def VerifierBorrowers_filteredBorrowers_def
      includesStr_sublist)

section \<open>Statistics\<close>

text \<open>
  C7. On the empty list of loans and on the empty list of borrowers every count and sum
  is 0 and every percentage is the plain 0 of the guard. On any list no percentage is
  the result of a division by zero: each division sits under a guard that makes its
  divisor positive.
\<close>

theorem aggregates_empty_zero:
  "totalLoans [] = 0 \<and> totalAmount [] = 0 \<and> totalDisbursed [] = 0 \<and> totalRepaid [] = 0 \<and>
   disbursedPercent [] = PlainZero \<and> repaidPercent [] = PlainZero \<and>
   pendingCount [] = 0 \<and> verifiedCount [] = 0 \<and> rejectedCount [] = 0 \<and>
   pendingPercent [] = PlainZero \<and> verifiedPercent [] = PlainZero \<and>
   rejectedPercent [] = PlainZero \<and>
   activeCount [] = 0 \<and> inactiveCount [] = 0 \<and> blacklistedCount [] = 0 \<and>
   activePercent [] = PlainZero \<and> inactivePercent [] = PlainZero \<and>
   blacklistedPercent [] = PlainZero \<and>
   disbursedPercent loans \<noteq> ToFixed1 NotFinite \<and> repaidPercent loans \<noteq> ToFixed1 NotFinite \<and>
   paidPercent loan \<noteq> ToFixed1 NotFinite \<and>
   pendingPercent vloans \<noteq> ToFixed1 NotFinite \<and>
   verifiedPercent vloans \<noteq> ToFixed1 NotFinite \<and>
   rejectedPercent vloans \<noteq> ToFixed1 NotFinite \<and>
   activePercent borrowers \<noteq> ToFixed1 NotFinite \<and>
   inactivePercent borrowers \<noteq> ToFixed1 NotFinite \<and>
   blacklistedPercent borrowers \<noteq> ToFixed1 NotFinite"
  by (simp add: totalLoans_def totalAmount_def totalDisbursed_def totalRepaid_def
      disbursedPercent_def repaidPercent_def paidPercent_def
      pendingCount_def verifiedCount_def rejectedCount_def
      pendingPercent_def verifiedPercent_def rejectedPercent_def
      activeCount_def inactiveCount_def blacklistedCount_def
      activePercent_def inactivePercent_def blacklistedPercent_def percentage_finite)

section \<open>Pagination\<close>

text \<open>
  C8. With the page size 5, the pages 1 to \<open>totalPages\<close>, one after the other, are the
  list of items itself: every item is on exactly one page, in its place.
\<close>

theorem pages_reconstruct:
  "concat (map (currentItems items) [1..totalPages items]) = items"
proof -
  have "0 \<le> totalPages items"
    by (rule totalPages_nonneg)
  then have "[1..totalPages items] = [1..int (nat (totalPages items))]"
    by simp
  then have "concat (map (currentItems items) [1..totalPages items]) =
             take (5 * nat (totalPages items)) items"
    using pages_concat_take [of items "nat (totalPages items)"] by simp
  then show ?thesis
    using totalPages_covers [of items] by simp
qed

section \<open>Search, as an operation on lists\<close>

text \<open>
  C9. The empty search term keeps the whole list, and filtering a filtered list again by
  the same term changes nothing, for the loans of the admin page and for the borrowers
  of both borrowers pages.
\<close>

theorem filter_identity_idempotent:
  "AdminLoans_filteredLoans loans [] = loans \<and>
   AdminBorrowers_filteredBorrowers borrowers [] = borrowers \<and>
   VerifierBorrowers_filteredBorrowers vborrowers [] = vborrowers \<and>
   AdminLoans_filteredLoans (AdminLoans_filteredLoans loans t) t
     = AdminLoans_filteredLoans loans t \<and>
   AdminBorrowers_filteredBorrowers (AdminBorrowers_filteredBorrowers borrowers t) t
     = AdminBorrowers_filteredBorrowers borrowers t \<and>
   VerifierBorrowers_filteredBorrowers (VerifierBorrowers_filteredBorrowers vborrowers t) t
     = VerifierBorrowers_filteredBorrowers vborrowers t"
  by (simp add: AdminLoans_filteredLoans_def AdminBorrowers_filteredBorrowers_def
      VerifierBorrowers_filteredBorrowers_def toLowerCase_Nil includesStr_Nil)

section \<open>A status update on the list\<close>

text \<open>
  C10. Whatever the outcome of the request, the three handlers keep the length of the
  list and the order of the identifiers, and leave every record with another identifier
  as it was; when the request resolves, the records with the requested identifier have
  the new status.
\<close>

theorem status_update_on_list:
  "length (fst (AdminLoans_handleUpdateStatus loans loanId newStatus res)) = length loans \<and>
   map loan_id (fst (AdminLoans_handleUpdateStatus loans loanId newStatus res))
     = map loan_id loans \<and>
   (\<forall>i < length loans.
      (loan_id (loans ! i) \<noteq> loanId \<longrightarrow>
         fst (AdminLoans_handleUpdateStatus loans loanId newStatus res) ! i = loans ! i) \<and>
      (loan_id (loans ! i) = loanId \<longrightarrow>
         status (fst (AdminLoans_handleUpdateStatus loans loanId newStatus Resolved) ! i)
           = newStatus)) \<and>
   length (fst (AdminBorrowers_handleUpdateStatus borrowers borrowerId newBStatus res))
     = length borrowers \<and>
   map borrower_id (fst (AdminBorrowers_handleUpdateStatus borrowers borrowerId newBStatus res))
     = map borrower_id borrowers \<and>
   (\<forall>i < length borrowers.
      (borrower_id (borrowers ! i) \<noteq> borrowerId \<longrightarrow>
         fst (AdminBorrowers_handleUpdateStatus borrowers borrowerId newBStatus res) ! i
           = borrowers ! i) \<and>
      (borrower_id (borrowers ! i) = borrowerId \<longrightarrow>
         bstatus (fst (AdminBorrowers_handleUpdateStatus borrowers borrowerId newBStatus Resolved) ! i)
           = newBStatus)) \<and>
   length (fst (VerifierBorrowers_handleUpdateStatus vborrowers borrowerId newVStatus res))
     = length vborrowers \<and>
   map vb_id (fst (VerifierBorrowers_handleUpdateStatus vborrowers borrowerId newVStatus res))
     = map vb_id vborrowers \<and>
   (\<forall>i < length vborrowers.
      (vb_id (vborrowers ! i) \<noteq> borrowerId \<longrightarrow>
         fst (VerifierBorrowers_handleUpdateStatus vborrowers borrowerId newVStatus res) ! i
           = vborrowers ! i) \<and>
      (vb_id (vborrowers ! i) = borrowerId \<longrightarrow>
         vb_status
           (fst (VerifierBorrowers_handleUpdateStatus vborrowers borrowerId newVStatus Resolved) ! i)
           = newVStatus))"
proof -
  have loans: "map loan_id (map (\<lambda>loan. if loan_id loan = loanId
                 then loan\<lparr>status := newStatus\<rparr> else loan) loans) = map loan_id loans"
    by (induction loans) simp_all
  have borrowers: "map borrower_id (map (\<lambda>b. if borrower_id b = borrowerId
                 then b\<lparr>bstatus := newBStatus\<rparr> else b) borrowers) = map borrower_id borrowers"
    by (induction borrowers) simp_all
  have vborrowers: "map vb_id (map (\<lambda>b. if vb_id b = borrowerId
                 then b\<lparr>vb_status := newVStatus\<rparr> else b) vborrowers) = map vb_id vborrowers"
    by (induction vborrowers) simp_all
  show ?thesis
  proof (cases res)
    case Resolved
    then show ?thesis
      using loans borrowers vborrowers
      by (simp add: AdminLoans_handleUpdateStatus_def AdminBorrowers_handleUpdateStatus_def
          VerifierBorrowers_handleUpdateStatus_def)
  next
    case (Failed msg)
    then show ?thesis
      by (simp add: AdminLoans_handleUpdateStatus_def AdminBorrowers_handleUpdateStatus_def
          VerifierBorrowers_handleUpdateStatus_def)
  qed
qed

text \<open>
  C10 on two loans, two borrowers and two verifier-side borrowers, the first of each
  pair with the requested identifier and the second with another.
\<close>

theorem status_update_on_list_witness:
  "(1::nat) < length [approvedLoan, approvedLoan\<lparr>loan_id := ''64f0c9''\<rparr>] \<and>
   loan_id ([approvedLoan, approvedLoan\<lparr>loan_id := ''64f0c9''\<rparr>] ! 0) = ''64f0c1'' \<and>
   loan_id ([approvedLoan, approvedLoan\<lparr>loan_id := ''64f0c9''\<rparr>] ! 1) \<noteq> ''64f0c1'' \<and>
   (1::nat) < length [borrowerWithoutPhone, borrowerWithoutPhone\<lparr>borrower_id := ''u9''\<rparr>] \<and>
   borrower_id ([borrowerWithoutPhone, borrowerWithoutPhone\<lparr>borrower_id := ''u9''\<rparr>] ! 0) = ''u3'' \<and>
   borrower_id ([borrowerWithoutPhone, borrowerWithoutPhone\<lparr>borrower_id := ''u9''\<rparr>] ! 1) \<noteq> ''u3'' \<and>
   (1::nat) < length [pendingBorrower\<lparr>vb_id := ''u3''\<rparr>, pendingBorrower] \<and>
   vb_id ([pendingBorrower\<lparr>vb_id := ''u3''\<rparr>, pendingBorrower] ! 0) = ''u3'' \<and>
   vb_id ([pendingBorrower\<lparr>vb_id := ''u3''\<rparr>, pendingBorrower] ! 1) \<noteq> ''u3'' \<and>
   status (fst (AdminLoans_handleUpdateStatus
       [approvedLoan, approvedLoan\<lparr>loan_id := ''64f0c9''\<rparr>] ''64f0c1'' Rejected Resolved) ! 0)
     = Rejected \<and>
   fst (AdminLoans_handleUpdateStatus
       [approvedLoan, approvedLoan\<lparr>loan_id := ''64f0c9''\<rparr>] ''64f0c1'' Rejected Resolved) ! 1
     = approvedLoan\<lparr>loan_id := ''64f0c9''\<rparr> \<and>
   bstatus (fst (AdminBorrowers_handleUpdateStatus
       [borrowerWithoutPhone, borrowerWithoutPhone\<lparr>borrower_id := ''u9''\<rparr>] ''u3'' Inactive
       Resolved) ! 0) = Inactive \<and>
   fst (AdminBorrowers_handleUpdateStatus
       [borrowerWithoutPhone, borrowerWithoutPhone\<lparr>borrower_id := ''u9''\<rparr>] ''u3'' Inactive
       Resolved) ! 1 = borrowerWithoutPhone\<lparr>borrower_id := ''u9''\<rparr> \<and>
   vb_status (fst (VerifierBorrowers_handleUpdateStatus
       [pendingBorrower\<lparr>vb_id := ''u3''\<rparr>, pendingBorrower] ''u3'' VVerified Resolved) ! 0)
     = VVerified \<and>
   fst (VerifierBorrowers_handleUpdateStatus
       [pendingBorrower\<lparr>vb_id := ''u3''\<rparr>, pendingBorrower] ''u3'' VVerified Resolved) ! 1
     = pendingBorrower"
  using status_update_on_list
    [of "[approvedLoan, approvedLoan\<lparr>loan_id := ''64f0c9''\<rparr>]" "''64f0c1''" Rejected Resolved
        "[borrowerWithoutPhone, borrowerWithoutPhone\<lparr>borrower_id := ''u9''\<rparr>]" "''u3''" Inactive
        "[pendingBorrower\<lparr>vb_id := ''u3''\<rparr>, pendingBorrower]" VVerified]
  by (simp add: approvedLoan_def borrowerWithoutPhone_def pendingBorrower_def)

end
